theory Spec2Isabelle
  imports Complex_Main "HOL-Library.Sublist"
begin

section \<open>The collection query tool of PyFunceble (PyFunceble/query/collection.py)\<close>

text \<open>
  The class \<^verbatim>\<open>CollectionQueryTool\<close> is embedded by explicit state passing: the instance is
  a record, every method takes the instance and returns the updated one, every
  \<^verbatim>\<open>raise\<close> is a value \<open>Inl\<close> of a sum, and every call the client makes on its session
  is appended to a log kept in the instance, whether the call returns or raises, so that
  the number and the order of the calls can be stated. An exception that no handler of the
  client catches leaves the method with the instance as it is at that point.
  Python strings are \<open>string\<close>; the characters are read as the code points below 256.
  Calls of the logger have no effect on the instance and are left out.
\<close>

subsection \<open>Python values\<close>

text \<open>JSON documents; \<open>JNull\<close> is what \<^verbatim>\<open>response.json()\<close> gives as Python's \<^verbatim>\<open>None\<close>.\<close>

datatype json =
    JNull
  | JBool bool
  | JNum int
  | JStr string
  | JArr "json list"
  | JObj "(string \<times> json) list"

datatype status_kind = Availability | Syntax | Reputation

text \<open>
  The dynamically typed values the public methods can receive. A checker status object
  (the classes \<^verbatim>\<open>AvailabilityCheckerStatus\<close>, \<^verbatim>\<open>SyntaxCheckerStatus\<close> and
  \<^verbatim>\<open>ReputationCheckerStatus\<close> are not part of this file) is its class, the attributes the
  client reads, and the results of its two serialisation methods. The attribute
  \<^verbatim>\<open>expiration_date\<close> is \<open>None\<close> when the object has no such attribute
  (\<^verbatim>\<open>hasattr\<close> is false).
\<close>

datatype pyval =
    PNone
  | PBool bool
  | PInt int
  | PFloat real
  | PStr string
  | PDict "(string \<times> json) list"
  | PStatus (kind: status_kind) (subject: pyval) (checker_type: pyval)
      (expiration_date: "pyval option") (to_json: string) (to_dict: "(string \<times> json) list")

datatype error = TypeError | ValueError

text \<open>Truth value testing of Python.\<close>

fun truthy :: "pyval \<Rightarrow> bool" where
  "truthy PNone = False"
| "truthy (PBool b) = b"
| "truthy (PInt i) = (i \<noteq> 0)"
| "truthy (PFloat x) = (x \<noteq> 0)"
| "truthy (PStr s) = (s \<noteq> [])"
| "truthy (PDict d) = (d \<noteq> [])"
| "truthy (PStatus k s c e j d) = True"

text \<open>Truth value of an \<^verbatim>\<open>Optional[str]\<close> and of an \<^verbatim>\<open>Optional[bool]\<close> attribute.\<close>

fun truthy_str :: "string option \<Rightarrow> bool" where
  "truthy_str None = False"
| "truthy_str (Some s) = (s \<noteq> [])"

fun truthy_bool :: "bool option \<Rightarrow> bool" where
  "truthy_bool None = False"
| "truthy_bool (Some b) = b"

text \<open>An \<^verbatim>\<open>Optional[str]\<close> inside an f-string.\<close>

fun fmt :: "string option \<Rightarrow> string" where
  "fmt None = ''None''"
| "fmt (Some s) = s"

text \<open>\<^verbatim>\<open>str.startswith\<close> with a tuple of prefixes, \<^verbatim>\<open>str.rstrip("/")\<close> and \<^verbatim>\<open>str.lower\<close>.\<close>

definition startswith :: "string \<Rightarrow> string list \<Rightarrow> bool" where
  "startswith s ps = list_ex (\<lambda>p. prefix p s) ps"

definition rstrip_slash :: "string \<Rightarrow> string" where
  "rstrip_slash s = rev (dropWhile (\<lambda>c. c = CHR ''/'') (rev s))"

definition lower_char :: "char \<Rightarrow> char" where
  "lower_char c =
     (let n = (of_char c :: nat)
      in if (65 \<le> n \<and> n \<le> 90) \<or> (192 \<le> n \<and> n \<le> 222 \<and> n \<noteq> 215)
         then char_of (n + 32) else c)"

definition lower :: "string \<Rightarrow> string" where
  "lower s = map lower_char s"

subsection \<open>The transport\<close>

text \<open>
  A request as the client hands it to \<^verbatim>\<open>requests.Session\<close>: the verb, the URL, the
  \<^verbatim>\<open>json=\<close> or \<^verbatim>\<open>data=\<close> argument and the \<^verbatim>\<open>timeout=\<close> argument.
\<close>

datatype verb = GET | POST

datatype payload = NoBody | JsonBody json | DataBody pyval

record request =
  http_method :: verb
  url :: string
  body :: payload
  req_timeout :: pyval

text \<open>
  What comes back. \<open>json_body = None\<close> is a body on which \<^verbatim>\<open>response.json()\<close> raises
  its \<^verbatim>\<open>JSONDecodeError\<close>. The session either returns a response or raises:
  \<^verbatim>\<open>requests.RequestException\<close> and \<^verbatim>\<open>json.decoder.JSONDecodeError\<close> are the two
  classes the client's handlers name; \<open>Other e\<close> is an exception of any other class, which
  no handler of the client catches (the requests library raises \<^verbatim>\<open>ValueError\<close> for a
  timeout that is zero, negative or a \<^verbatim>\<open>bool\<close>).
\<close>

record response =
  status_code :: int
  json_body :: "json option"

datatype exn = RequestException | JSONDecodeError | Other error

datatype outcome = Raise exn | Return response

text \<open>
  The remote side is any function of the calls made so far and of the present request.
\<close>

type_synonym network = "request list \<Rightarrow> request \<Rightarrow> outcome"

text \<open>\<^verbatim>\<open>Response.raise_for_status\<close> of the requests library: an HTTPError for 4xx and 5xx.\<close>

definition raise_for_status :: "response \<Rightarrow> exn + unit" where
  "raise_for_status r =
     (if 400 \<le> status_code r \<and> status_code r < 600 then Inl RequestException else Inr ())"

subsection \<open>The instance\<close>

record client =
  priv_token :: "string option"
  priv_url_base :: "string option"
  priv_preferred_status_origin :: "string option"
  priv_is_modern_api :: "bool option"
  priv_timeout :: pyval
  session_headers :: "(string \<times> string option) list"
  calls :: "request list"

definition SUPPORTED_CHECKERS :: "string list" where
  "SUPPORTED_CHECKERS = [''syntax'', ''reputation'', ''availability'']"

definition SUPPORTED_STATUS_ORIGIN :: "string list" where
  "SUPPORTED_STATUS_ORIGIN = [''frequent'', ''latest'', ''recommended'']"

definition STD_URL_BASE :: string where
  "STD_URL_BASE = ''http://localhost:8001''"

definition STD_PREFERRED_STATUS_ORIGIN :: string where
  "STD_PREFERRED_STATUS_ORIGIN = ''frequent''"

definition STD_TIMEOUT :: pyval where
  "STD_TIMEOUT = PFloat 5"

text \<open>The class attributes, before \<^verbatim>\<open>__init__\<close> has run.\<close>

definition class_defaults :: client where
  "class_defaults =
     \<lparr>priv_token = None, priv_url_base = None, priv_preferred_status_origin = None,
      priv_is_modern_api = None, priv_timeout = PFloat 5, session_headers = [], calls = []\<rparr>"

subsection \<open>Properties and their setters\<close>

definition token :: "client \<Rightarrow> string option" where
  "token self = priv_token self"

definition token_setter :: "pyval \<Rightarrow> client \<Rightarrow> error + client" where
  "token_setter v self =
     (case v of PStr s \<Rightarrow> Inr (self\<lparr>priv_token := Some s\<rparr>) | _ \<Rightarrow> Inl TypeError)"

definition url_base :: "client \<Rightarrow> string option" where
  "url_base self = priv_url_base self"

definition url_base_setter :: "pyval \<Rightarrow> client \<Rightarrow> error + client" where
  "url_base_setter v self =
     (case v of
        PStr s \<Rightarrow>
          if \<not> startswith s [''http'', ''https''] then Inl ValueError
          else Inr (self\<lparr>priv_url_base := Some (rstrip_slash s)\<rparr>)
      | _ \<Rightarrow> Inl TypeError)"

definition set_url_base :: "pyval \<Rightarrow> client \<Rightarrow> error + client" where
  "set_url_base v self = url_base_setter v self"

definition is_modern_api :: "client \<Rightarrow> bool option" where
  "is_modern_api self = priv_is_modern_api self"

definition is_modern_api_setter :: "pyval \<Rightarrow> client \<Rightarrow> error + client" where
  "is_modern_api_setter v self =
     (case v of PBool b \<Rightarrow> Inr (self\<lparr>priv_is_modern_api := Some b\<rparr>) | _ \<Rightarrow> Inl TypeError)"

definition timeout :: "client \<Rightarrow> pyval" where
  "timeout self = priv_timeout self"

definition timeout_setter :: "pyval \<Rightarrow> client \<Rightarrow> error + client" where
  "timeout_setter v self =
     (case v of
        PInt i \<Rightarrow> Inr (self\<lparr>priv_timeout := v\<rparr>)
      | PBool b \<Rightarrow> Inr (self\<lparr>priv_timeout := v\<rparr>)
      | PFloat x \<Rightarrow> Inr (self\<lparr>priv_timeout := v\<rparr>)
      | _ \<Rightarrow> Inl TypeError)"

definition preferred_status_origin :: "client \<Rightarrow> string option" where
  "preferred_status_origin self = priv_preferred_status_origin self"

definition preferred_status_origin_setter :: "pyval \<Rightarrow> client \<Rightarrow> error + client" where
  "preferred_status_origin_setter v self =
     (case v of
        PStr s \<Rightarrow>
          if s \<notin> set SUPPORTED_STATUS_ORIGIN then Inl ValueError
          else Inr (self\<lparr>priv_preferred_status_origin := Some s\<rparr>)
      | _ \<Rightarrow> Inl TypeError)"


subsection \<open>Guessing the settings\<close>

text \<open>
  What the constructor reads from outside this file: the environment variables
  (\<^verbatim>\<open>EnvironmentVariableHelper\<close>), whether the configuration is loaded
  (\<^verbatim>\<open>ConfigLoader.is_already_loaded\<close>), three entries of the loaded configuration and
  the version of the project.
\<close>

record environment =
  env_vars :: "string \<Rightarrow> string option"
  is_already_loaded :: bool
  cfg_collection_url_base :: pyval
  cfg_collection_preferred_status_origin :: pyval
  cfg_lookup_timeout :: pyval
  PROJECT_VERSION :: string

text \<open>Sequencing of steps that may raise.\<close>

definition and_then :: "error + 'a \<Rightarrow> ('a \<Rightarrow> error + 'b) \<Rightarrow> error + 'b" where
  "and_then r f = (case r of Inl e \<Rightarrow> Inl e | Inr x \<Rightarrow> f x)"

definition guess_and_set_url_base :: "environment \<Rightarrow> client \<Rightarrow> error + client" where
  "guess_and_set_url_base env self =
     (if is_already_loaded env then
        (case cfg_collection_url_base env of
           PStr s \<Rightarrow> url_base_setter (PStr s) self
         | _ \<Rightarrow> url_base_setter (PStr STD_URL_BASE) self)
      else
        (case env_vars env ''PYFUNCEBLE_COLLECTION_API_URL'' of
           Some v \<Rightarrow> url_base_setter (PStr v) self
         | None \<Rightarrow> url_base_setter (PStr STD_URL_BASE) self))"

definition guess_and_set_preferred_status_origin :: "environment \<Rightarrow> client \<Rightarrow> error + client" where
  "guess_and_set_preferred_status_origin env self =
     (if is_already_loaded env then
        (case cfg_collection_preferred_status_origin env of
           PStr s \<Rightarrow> preferred_status_origin_setter (PStr s) self
         | _ \<Rightarrow> preferred_status_origin_setter (PStr STD_PREFERRED_STATUS_ORIGIN) self)
      else preferred_status_origin_setter (PStr STD_PREFERRED_STATUS_ORIGIN) self)"

definition guess_and_set_timeout :: "environment \<Rightarrow> client \<Rightarrow> error + client" where
  "guess_and_set_timeout env self =
     (if is_already_loaded env then timeout_setter (cfg_lookup_timeout env) self
      else timeout_setter STD_TIMEOUT self)"

text \<open>
  \<^verbatim>\<open>__init__\<close>; an argument that is \<open>PNone\<close> is an argument left out. The attribute
  \<^verbatim>\<open>_is_modern_api\<close> is not assigned: it keeps the class attribute \<^verbatim>\<open>None\<close>.
\<close>

definition init :: "environment \<Rightarrow> pyval \<Rightarrow> pyval \<Rightarrow> pyval \<Rightarrow> pyval \<Rightarrow> error + client" where
  "init env token_arg url_base_arg preferred_status_origin_arg timeout_arg =
     and_then
       (if token_arg \<noteq> PNone then token_setter token_arg class_defaults
        else token_setter
               (PStr (case env_vars env ''PYFUNCEBLE_COLLECTION_API_TOKEN'' of
                        Some v \<Rightarrow> v | None \<Rightarrow> []))
               class_defaults)
       (\<lambda>self1. and_then
          (if url_base_arg \<noteq> PNone then url_base_setter url_base_arg self1
           else guess_and_set_url_base env self1)
          (\<lambda>self2. and_then
             (if preferred_status_origin_arg \<noteq> PNone
              then preferred_status_origin_setter preferred_status_origin_arg self2
              else guess_and_set_preferred_status_origin env self2)
             (\<lambda>self3. and_then
                (if timeout_arg \<noteq> PNone then timeout_setter timeout_arg self3
                 else guess_and_set_timeout env self3)
                (\<lambda>self4. Inr (self4\<lparr>session_headers :=
                    [(''Authorization'',
                        if truthy_str (token self4)
                        then Some (''Bearer '' @ fmt (token self4)) else None),
                     (''X-Pyfunceble-Version'', Some (PROJECT_VERSION env)),
                     (''Content-Type'', Some ''application/json'')]\<rparr>)))))"

subsection \<open>Calls through the session\<close>

definition session_send :: "network \<Rightarrow> request \<Rightarrow> client \<Rightarrow> outcome \<times> client" where
  "session_send net req self = (net (calls self) req, self\<lparr>calls := calls self @ [req]\<rparr>)"

definition session_get :: "network \<Rightarrow> string \<Rightarrow> pyval \<Rightarrow> client \<Rightarrow> outcome \<times> client" where
  "session_get net u t self =
     session_send net \<lparr>http_method = GET, url = u, body = NoBody, req_timeout = t\<rparr> self"

definition session_post ::
  "network \<Rightarrow> string \<Rightarrow> payload \<Rightarrow> pyval \<Rightarrow> client \<Rightarrow> outcome \<times> client" where
  "session_post net u b t self =
     session_send net \<lparr>http_method = POST, url = u, body = b, req_timeout = t\<rparr> self"

subsection \<open>The generation of the API\<close>

text \<open>
  \<^verbatim>\<open>guess_and_set_is_modern_api\<close>. The inner \<open>case\<close> is the \<^verbatim>\<open>try\<close> block (the GET,
  then \<^verbatim>\<open>raise_for_status\<close>), the outer one its \<^verbatim>\<open>except\<close> clause, which names two
  classes; any other exception leaves the method with the attribute untouched. The
  assignments go through the setter with a \<^verbatim>\<open>bool\<close>, which never raises; they are written
  as updates of the attribute.
\<close>

definition guess_and_set_is_modern_api :: "network \<Rightarrow> client \<Rightarrow> (error + unit) \<times> client" where
  "guess_and_set_is_modern_api net self =
     (if truthy_str (token self) then
        (case session_get net (fmt (url_base self) @ ''/v1/stats/subject'') (timeout self) self of
           (out, self1) \<Rightarrow>
             (case (case out of Raise e \<Rightarrow> Inl e | Return response \<Rightarrow> raise_for_status response) of
                Inr u \<Rightarrow> (Inr (), self1\<lparr>priv_is_modern_api := Some False\<rparr>)
              | Inl RequestException \<Rightarrow> (Inr (), self1\<lparr>priv_is_modern_api := Some True\<rparr>)
              | Inl JSONDecodeError \<Rightarrow> (Inr (), self1\<lparr>priv_is_modern_api := Some True\<rparr>)
              | Inl (Other e) \<Rightarrow> (Inl e, self1)))
      else (Inr (), self\<lparr>priv_is_modern_api := Some False\<rparr>))"

text \<open>The decorator \<^verbatim>\<open>ensure_is_modern_api_is_set\<close>: the wrapper around a method.\<close>

definition ensure_is_modern_api_is_set ::
  "network \<Rightarrow> ('a \<Rightarrow> client \<Rightarrow> (error + 'b) \<times> client) \<Rightarrow>
     'a \<Rightarrow> client \<Rightarrow> (error + 'b) \<times> client" where
  "ensure_is_modern_api_is_set net func arg self =
     (if is_modern_api self = None then
        (case guess_and_set_is_modern_api net self of
           (Inl e, self1) \<Rightarrow> (Inl e, self1)
         | (Inr u, self1) \<Rightarrow> func arg self1)
      else func arg self)"

subsection \<open>Pulling\<close>

text \<open>The body of \<^verbatim>\<open>pull\<close>, under the decorator.\<close>

definition pull_body :: "network \<Rightarrow> pyval \<Rightarrow> client \<Rightarrow> (error + json) \<times> client" where
  "pull_body net subj self =
     (case subj of
        PStr s \<Rightarrow>
          (let u = (if truthy_bool (is_modern_api self) then
                      (if truthy_str (token self)
                       then fmt (url_base self) @ ''/v1/aggregation/subject/search''
                       else fmt (url_base self) @ ''/v1/hub/aggregation/subject/search'')
                    else fmt (url_base self) @ ''/v1/subject/search'')
           in case session_post net u (JsonBody (JObj [(''subject'', JStr s)])) (timeout self) self of
                (Raise RequestException, self1) \<Rightarrow> (Inr JNull, self1)
              | (Raise JSONDecodeError, self1) \<Rightarrow> (Inr JNull, self1)
              | (Raise (Other e), self1) \<Rightarrow> (Inl e, self1)
              | (Return response, self1) \<Rightarrow>
                  (case json_body response of
                     None \<Rightarrow> (Inr JNull, self1)
                   | Some response_json \<Rightarrow>
                       if status_code response = 200 then (Inr response_json, self1)
                       else (Inr JNull, self1)))
      | _ \<Rightarrow> (Inl TypeError, self))"

definition pull :: "network \<Rightarrow> pyval \<Rightarrow> client \<Rightarrow> (error + json) \<times> client" where
  "pull net = ensure_is_modern_api_is_set net (pull_body net)"

text \<open>\<^verbatim>\<open>__contains__\<close> and \<^verbatim>\<open>__getitem__\<close>.\<close>

definition contains :: "network \<Rightarrow> pyval \<Rightarrow> client \<Rightarrow> (error + bool) \<times> client" where
  "contains net v self =
     (case pull net v self of
        (Inl e, self1) \<Rightarrow> (Inl e, self1)
      | (Inr r, self1) \<Rightarrow> (Inr (r \<noteq> JNull), self1))"

definition getitem :: "network \<Rightarrow> pyval \<Rightarrow> client \<Rightarrow> (error + json) \<times> client" where
  "getitem net v self = pull net v self"

subsection \<open>Pushing\<close>

text \<open>\<^verbatim>\<open>__push_status\<close>.\<close>

definition push_status :: "network \<Rightarrow> string \<Rightarrow> pyval \<Rightarrow> client \<Rightarrow> (error + json) \<times> client" where
  "push_status net ctype data self =
     (if \<not> truthy_str (token self) then (Inr JNull, self)
      else if ctype \<notin> set SUPPORTED_CHECKERS then (Inl ValueError, self)
      else
        (let u = (if truthy_bool (is_modern_api self) then
                    (if \<not> truthy_str (token self)
                     then fmt (url_base self) @ ''/v1/hub/status/'' @ ctype
                     else fmt (url_base self) @ ''/v1/contracts/self-delivery'')
                  else fmt (url_base self) @ ''/v1/status/'' @ ctype)
         in case (case data of
                    PDict d \<Rightarrow> session_post net u (JsonBody (JObj d)) (timeout self) self
                  | PStatus k s c e j d \<Rightarrow>
                      session_post net u (JsonBody (JObj d)) (timeout self) self
                  | _ \<Rightarrow> session_post net u (DataBody data) (timeout self) self) of
              (Raise RequestException, self1) \<Rightarrow> (Inr JNull, self1)
            | (Raise JSONDecodeError, self1) \<Rightarrow> (Inr JNull, self1)
            | (Raise (Other e), self1) \<Rightarrow> (Inl e, self1)
            | (Return response, self1) \<Rightarrow>
                (case json_body response of
                   None \<Rightarrow> (Inr JNull, self1)
                 | Some response_json \<Rightarrow>
                     if status_code response = 200 then (Inr response_json, self1)
                     else (Inr JNull, self1))))"

text \<open>\<^verbatim>\<open>__push_whois\<close>.\<close>

definition push_whois :: "network \<Rightarrow> pyval \<Rightarrow> client \<Rightarrow> (error + json) \<times> client" where
  "push_whois net data self =
     (if \<not> truthy_str (token self) then (Inr JNull, self)
      else
        (case (case data of PStatus k s c e j d \<Rightarrow> PDict d | _ \<Rightarrow> data) of
           PDict d \<Rightarrow>
             (case session_post net (fmt (url_base self) @ ''/v1/status/whois'')
                     (JsonBody (JObj d)) (timeout self) self of
                (Raise RequestException, self1) \<Rightarrow> (Inr JNull, self1)
              | (Raise JSONDecodeError, self1) \<Rightarrow> (Inr JNull, self1)
              | (Raise (Other e), self1) \<Rightarrow> (Inl e, self1)
              | (Return response, self1) \<Rightarrow>
                  (case json_body response of
                     None \<Rightarrow> (Inr JNull, self1)
                   | Some response_json \<Rightarrow>
                       if status_code response = 200 then (Inr response_json, self1)
                       else (Inr JNull, self1)))
         | _ \<Rightarrow> (Inl TypeError, self)))"

text \<open>The body of \<^verbatim>\<open>push\<close>, under the decorator.\<close>

definition push_body :: "network \<Rightarrow> pyval \<Rightarrow> client \<Rightarrow> (error + json) \<times> client" where
  "push_body net checker_status self =
     (case checker_status of
        PStatus k subj ctype expiry tj td \<Rightarrow>
          (case subj of
             PStr s \<Rightarrow>
               (case ctype of
                  PStr c \<Rightarrow>
                    if s = [] then (Inl ValueError, self)
                    else
                      (case (if \<not> truthy_bool (is_modern_api self)
                                \<and> (case expiry of None \<Rightarrow> False | Some d \<Rightarrow> truthy d)
                             then push_whois net checker_status self
                             else (Inr JNull, self)) of
                         (Inl e, self1) \<Rightarrow> (Inl e, self1)
                       | (Inr w, self1) \<Rightarrow> push_status net (lower c) (PStr tj) self1)
                | _ \<Rightarrow> (Inl TypeError, self))
           | _ \<Rightarrow> (Inl TypeError, self))
      | _ \<Rightarrow> (Inl TypeError, self))"

definition push :: "network \<Rightarrow> pyval \<Rightarrow> client \<Rightarrow> (error + json) \<times> client" where
  "push net = ensure_is_modern_api_is_set net (push_body net)"


subsection \<open>Sequences of calls by one caller\<close>

text \<open>
  A caller's use of one instance: a list of \<^verbatim>\<open>pull\<close> and \<^verbatim>\<open>push\<close> calls, each on the
  instance the previous one left behind, whether it returned or raised.
\<close>

datatype operation = Pull pyval | Push pyval

fun perform :: "network \<Rightarrow> operation \<Rightarrow> client \<Rightarrow> client" where
  "perform net (Pull v) self = snd (pull net v self)"
| "perform net (Push v) self = snd (push net v self)"

fun perform_all :: "network \<Rightarrow> operation list \<Rightarrow> client \<Rightarrow> client" where
  "perform_all net [] self = self"
| "perform_all net (x # xs) self = perform_all net xs (perform net x self)"

text \<open>The number of probes in the log: the probe is the only GET of the client.\<close>

definition probes :: "client \<Rightarrow> nat" where
  "probes self = length (filter (\<lambda>r. http_method r = GET) (calls self))"

subsection \<open>Concrete instances, records and remote sides\<close>

definition example_env :: environment where
  "example_env =
     \<lparr>env_vars = (\<lambda>name. None), is_already_loaded = False,
      cfg_collection_url_base = PNone, cfg_collection_preferred_status_origin = PNone,
      cfg_lookup_timeout = PNone, PROJECT_VERSION = ''4.2.0''\<rparr>"

text \<open>
  The instance of the round trip of the specification: no token, the base
  \<^verbatim>\<open>https://api.example.test\<close>, the origin \<^verbatim>\<open>latest\<close> and the timeout 2.5.
\<close>

definition anonymous_client :: client where
  "anonymous_client =
     \<lparr>priv_token = Some [], priv_url_base = Some ''https://api.example.test'',
      priv_preferred_status_origin = Some ''latest'', priv_is_modern_api = None,
      priv_timeout = PFloat 2.5,
      session_headers =
        [(''Authorization'', None), (''X-Pyfunceble-Version'', Some ''4.2.0''),
         (''Content-Type'', Some ''application/json'')],
      calls = []\<rparr>"

definition token_client :: client where
  "token_client =
     anonymous_client
       \<lparr>priv_token := Some ''secret'',
        session_headers :=
          [(''Authorization'', Some ''Bearer secret''), (''X-Pyfunceble-Version'', Some ''4.2.0''),
           (''Content-Type'', Some ''application/json'')]\<rparr>"

definition example_status :: pyval where
  "example_status =
     PStatus Availability (PStr ''example.org'') (PStr ''AVAILABILITY'')
       (Some (PStr ''01-jan-2030'')) ''{}'' [(''subject'', JStr ''example.org'')]"

definition unsupported_status :: pyval where
  "unsupported_status =
     PStatus Availability (PStr ''example.org'') (PStr ''whatever'')
       (Some (PStr ''01-jan-2030'')) ''{}'' [(''subject'', JStr ''example.org'')]"

definition net_ok :: network where
  "net_ok history req = Return \<lparr>status_code = 200, json_body = Some (JObj [(''id'', JNum 1)])\<rparr>"

definition net_down :: network where
  "net_down history req = Raise RequestException"

definition net_not_modified :: network where
  "net_not_modified history req = Return \<lparr>status_code = 304, json_body = Some (JObj [])\<rparr>"

definition net_html :: network where
  "net_html history req = Return \<lparr>status_code = 200, json_body = None\<rparr>"

text \<open>
  A remote side behind the timeout validation of the requests library, which raises
  \<^verbatim>\<open>ValueError\<close> before anything is sent when the timeout is a \<^verbatim>\<open>bool\<close>, zero or
  negative; the setter of \<^verbatim>\<open>timeout\<close> accepts all of these.
\<close>

definition timeout_rejected :: "pyval \<Rightarrow> bool" where
  "timeout_rejected t =
     (case t of PBool b \<Rightarrow> True | PInt i \<Rightarrow> i \<le> 0 | PFloat x \<Rightarrow> x \<le> 0 | _ \<Rightarrow> True)"

definition net_strict :: network where
  "net_strict history req =
     (if timeout_rejected (req_timeout req) then Raise (Other ValueError)
      else Return \<lparr>status_code = 200, json_body = Some (JObj [(''id'', JNum 1)])\<rparr>)"


definition bool_timeout_client :: client where
  "bool_timeout_client = token_client\<lparr>priv_timeout := PBool True\<rparr>"

subsection \<open>Relations between the instance before and after a call\<close>

text \<open>A call that posts: the log grows by POST requests only, the settings stay.\<close>

definition posts_only :: "client \<Rightarrow> client \<Rightarrow> bool" where
  "posts_only self self1 \<longleftrightarrow>
     token self1 = token self \<and> url_base self1 = url_base self \<and>
     timeout self1 = timeout self \<and> is_modern_api self1 = is_modern_api self \<and>
     probes self1 = probes self"

text \<open>The setters and the constructor leave the generation and the log alone.\<close>

definition same_session :: "client \<Rightarrow> client \<Rightarrow> bool" where
  "same_session a b \<longleftrightarrow> priv_is_modern_api b = priv_is_modern_api a \<and> calls b = calls a"

text \<open>
  What the three posting methods make of the outcome of their call: the handled classes, a
  body that does not parse and a status other than 200 give \<^verbatim>\<open>None\<close>, an exception
  of another class leaves the method.
\<close>

definition soft_result :: "outcome \<Rightarrow> error + json" where
  "soft_result out =
     (case out of
        Raise RequestException \<Rightarrow> Inr JNull
      | Raise JSONDecodeError \<Rightarrow> Inr JNull
      | Raise (Other e) \<Rightarrow> Inl e
      | Return r \<Rightarrow>
          (case json_body r of
             None \<Rightarrow> Inr JNull
           | Some j \<Rightarrow> if status_code r = 200 then Inr j else Inr JNull))"

section \<open>Properties\<close>

subsection \<open>The probe and the posting methods\<close>


lemmas getters = token_def url_base_def timeout_def is_modern_api_def

lemma session_get_eq:
  "session_get net u t self =
     (net (calls self) \<lparr>http_method = GET, url = u, body = NoBody, req_timeout = t\<rparr>,
      self\<lparr>calls := calls self @ [\<lparr>http_method = GET, url = u, body = NoBody, req_timeout = t\<rparr>]\<rparr>)"
  by (simp add: session_get_def session_send_def)

lemma session_post_eq:
  "session_post net u b t self =
     (net (calls self) \<lparr>http_method = POST, url = u, body = b, req_timeout = t\<rparr>,
      self\<lparr>calls := calls self @ [\<lparr>http_method = POST, url = u, body = b, req_timeout = t\<rparr>]\<rparr>)"
  by (simp add: session_post_def session_send_def)

lemma guess_without_token:
  "\<not> truthy_str (token self) \<Longrightarrow>
     guess_and_set_is_modern_api net self = (Inr (), self\<lparr>priv_is_modern_api := Some False\<rparr>)"
  by (simp add: guess_and_set_is_modern_api_def)

lemma guess_with_token:
  "truthy_str (token self) \<Longrightarrow>
     guess_and_set_is_modern_api net self =
       (case net (calls self)
               \<lparr>http_method = GET, url = fmt (url_base self) @ ''/v1/stats/subject'',
                body = NoBody, req_timeout = timeout self\<rparr> of
          Raise RequestException \<Rightarrow>
            (Inr (), self\<lparr>calls := calls self @
                [\<lparr>http_method = GET, url = fmt (url_base self) @ ''/v1/stats/subject'',
                  body = NoBody, req_timeout = timeout self\<rparr>],
              priv_is_modern_api := Some True\<rparr>)
        | Raise JSONDecodeError \<Rightarrow>
            (Inr (), self\<lparr>calls := calls self @
                [\<lparr>http_method = GET, url = fmt (url_base self) @ ''/v1/stats/subject'',
                  body = NoBody, req_timeout = timeout self\<rparr>],
              priv_is_modern_api := Some True\<rparr>)
        | Raise (Other e) \<Rightarrow>
            (Inl e, self\<lparr>calls := calls self @
                [\<lparr>http_method = GET, url = fmt (url_base self) @ ''/v1/stats/subject'',
                  body = NoBody, req_timeout = timeout self\<rparr>]\<rparr>)
        | Return r \<Rightarrow>
            (Inr (), self\<lparr>calls := calls self @
                [\<lparr>http_method = GET, url = fmt (url_base self) @ ''/v1/stats/subject'',
                  body = NoBody, req_timeout = timeout self\<rparr>],
              priv_is_modern_api := Some (400 \<le> status_code r \<and> status_code r < 600)\<rparr>))"
  by (simp add: guess_and_set_is_modern_api_def session_get_eq raise_for_status_def
      split: outcome.splits exn.splits)


lemma guess_calls:
  "calls (snd (guess_and_set_is_modern_api net self)) =
     (if truthy_str (token self)
      then calls self @
             [\<lparr>http_method = GET, url = fmt (url_base self) @ ''/v1/stats/subject'',
               body = NoBody, req_timeout = timeout self\<rparr>]
      else calls self)"
  by (simp add: guess_without_token guess_with_token split: outcome.splits exn.splits)

lemma guess_resolves:
  "fst (guess_and_set_is_modern_api net self) = Inr u \<Longrightarrow>
   is_modern_api (snd (guess_and_set_is_modern_api net self)) \<noteq> None"
  by (cases "truthy_str (token self)";
      auto simp add: guess_without_token guess_with_token getters split: outcome.splits exn.splits)

lemma guess_raises:
  "fst (guess_and_set_is_modern_api net self) = Inl e \<Longrightarrow>
   is_modern_api (snd (guess_and_set_is_modern_api net self)) = is_modern_api self"
  by (cases "truthy_str (token self)";
      simp add: guess_without_token guess_with_token getters split: outcome.splits exn.splits)

lemma guess_probes:
  "probes (snd (guess_and_set_is_modern_api net self)) \<le> probes self + 1"
  by (simp add: probes_def guess_calls)

lemma posts_only_refl: "posts_only self self"
  by (simp add: posts_only_def)

lemma posts_only_trans: "posts_only a b \<Longrightarrow> posts_only b c \<Longrightarrow> posts_only a c"
  by (simp add: posts_only_def)

lemma posts_only_append:
  "http_method req = POST \<Longrightarrow> posts_only self (self\<lparr>calls := calls self @ [req]\<rparr>)"
  by (simp add: posts_only_def getters probes_def)

text \<open>The posting methods in closed form.\<close>

lemma pull_body_str:
  "pull_body net (PStr s) self =
     (soft_result
        (net (calls self)
           \<lparr>http_method = POST,
            url = (if truthy_bool (is_modern_api self) then
                     (if truthy_str (token self)
                      then fmt (url_base self) @ ''/v1/aggregation/subject/search''
                      else fmt (url_base self) @ ''/v1/hub/aggregation/subject/search'')
                   else fmt (url_base self) @ ''/v1/subject/search''),
            body = JsonBody (JObj [(''subject'', JStr s)]),
            req_timeout = timeout self\<rparr>),
      self\<lparr>calls := calls self @
         [\<lparr>http_method = POST,
           url = (if truthy_bool (is_modern_api self) then
                    (if truthy_str (token self)
                     then fmt (url_base self) @ ''/v1/aggregation/subject/search''
                     else fmt (url_base self) @ ''/v1/hub/aggregation/subject/search'')
                  else fmt (url_base self) @ ''/v1/subject/search''),
           body = JsonBody (JObj [(''subject'', JStr s)]),
           req_timeout = timeout self\<rparr>]\<rparr>)"
  by (simp add: pull_body_def Let_def session_post_eq soft_result_def
      split: outcome.splits option.splits exn.splits)

lemma pull_body_not_str:
  "\<forall>s. v \<noteq> PStr s \<Longrightarrow> pull_body net v self = (Inl TypeError, self)"
  by (cases v) (simp_all add: pull_body_def)



lemma push_whois_without_token:
  "\<not> truthy_str (token self) \<Longrightarrow> push_whois net d self = (Inr JNull, self)"
  by (simp add: push_whois_def)

lemma push_status_without_token:
  "\<not> truthy_str (token self) \<Longrightarrow> push_status net c d self = (Inr JNull, self)"
  by (simp add: push_status_def)

lemma pull_body_posts_only: "posts_only self (snd (pull_body net v self))"
  by (cases v)
     (simp_all add: pull_body_def Let_def session_post_eq posts_only_refl posts_only_append
        split: outcome.splits option.splits exn.splits)

lemma push_status_posts_only: "posts_only self (snd (push_status net c d self))"
  by (cases d)
     (simp_all add: push_status_def Let_def session_post_eq posts_only_refl posts_only_append
        split: outcome.splits option.splits exn.splits)

lemma push_whois_posts_only: "posts_only self (snd (push_whois net d self))"
  by (cases d)
     (simp_all add: push_whois_def Let_def session_post_eq posts_only_refl posts_only_append
        split: outcome.splits option.splits exn.splits)

subsection \<open>Validation, sequences of calls and the constructor\<close>


lemma push_body_not_status:
  "\<forall>k s c e j d. v \<noteq> PStatus k s c e j d \<Longrightarrow> push_body net v self = (Inl TypeError, self)"
  by (cases v) (simp_all add: push_body_def)

lemma push_body_subject_not_str:
  "\<forall>s. subj \<noteq> PStr s \<Longrightarrow> push_body net (PStatus k subj c e j d) self = (Inl TypeError, self)"
  by (cases subj) (simp_all add: push_body_def)

lemma push_body_type_not_str:
  "\<forall>c. ctype \<noteq> PStr c \<Longrightarrow>
   push_body net (PStatus k (PStr s) ctype e j d) self = (Inl TypeError, self)"
  by (cases ctype) (simp_all add: push_body_def)

lemma push_body_empty_subject:
  "push_body net (PStatus k (PStr []) (PStr c) e j d) self = (Inl ValueError, self)"
  by (simp add: push_body_def)

lemma push_body_valid:
  "s \<noteq> [] \<Longrightarrow>
   push_body net (PStatus k (PStr s) (PStr c) e tj td) self =
     (case (if \<not> truthy_bool (is_modern_api self)
               \<and> (case e of None \<Rightarrow> False | Some d \<Rightarrow> truthy d)
            then push_whois net (PStatus k (PStr s) (PStr c) e tj td) self
            else (Inr JNull, self)) of
        (Inl x, self1) \<Rightarrow> (Inl x, self1)
      | (Inr w, self1) \<Rightarrow> push_status net (lower c) (PStr tj) self1)"
  by (simp add: push_body_def)

lemma push_body_cases:
  obtains (raised) x where "push_body net v self = (Inl x, self)"
  | (valid) k s c e tj td where "v = PStatus k (PStr s) (PStr c) e tj td" and "s \<noteq> []"
proof (cases v)
  case (PStatus k subj ctype e tj td)
  show ?thesis
  proof (cases "\<exists>s. subj = PStr s")
    case False
    then show ?thesis using raised push_body_subject_not_str PStatus by blast 
  next
    case True
    then obtain s where s: "subj = PStr s" by blast
    show ?thesis
    proof (cases "\<exists>c. ctype = PStr c")
      case False
      then show ?thesis using raised push_body_type_not_str PStatus s by blast
    next
      case True
      then obtain c where c: "ctype = PStr c" by blast
      show ?thesis
      proof (cases "s = []")
        case True
        then show ?thesis using raised push_body_empty_subject PStatus s c by blast
      next
        case False
        then show ?thesis using valid PStatus s c by blast
      qed
    qed
  qed
qed (use raised push_body_not_status in blast)+

lemma push_body_posts_only: "posts_only self (snd (push_body net v self))"
proof (cases rule: push_body_cases[of net v self])
  case (raised x)
  then show ?thesis by (simp add: posts_only_refl)
next
  case (valid k s c e tj td)
  let ?w = "if \<not> truthy_bool (is_modern_api self)
               \<and> (case e of None \<Rightarrow> False | Some d \<Rightarrow> truthy d)
            then push_whois net v self else (Inr JNull, self)"
  have eq: "push_body net v self =
     (case ?w of (Inl x, self1) \<Rightarrow> (Inl x, self1)
      | (Inr w, self1) \<Rightarrow> push_status net (lower c) (PStr tj) self1)"
    using push_body_valid[OF valid(2)] valid(1) by simp
  have p1: "posts_only self (snd ?w)"
    by (simp add: push_whois_posts_only posts_only_refl)
  obtain r1 self1 where w: "?w = (r1, self1)" by (cases ?w)
  show ?thesis
  proof (cases r1)
    case (Inl x)
    then show ?thesis using p1 w eq by simp
  next
    case (Inr y)
    then have "snd (push_body net v self) = snd (push_status net (lower c) (PStr tj) self1)"
      using w eq by simp
    moreover have "posts_only self self1" using p1 w by simp
    ultimately show ?thesis
      using push_status_posts_only[of self1 net "lower c" "PStr tj"] posts_only_trans
      by metis
  qed
qed

lemma pull_posts_only:
  "is_modern_api self \<noteq> None \<Longrightarrow> posts_only self (snd (pull net v self))"
  by (auto simp add: pull_def ensure_is_modern_api_is_set_def pull_body_posts_only)

lemma push_posts_only:
  "is_modern_api self \<noteq> None \<Longrightarrow> posts_only self (snd (push net v self))"
  by (auto simp add: push_def ensure_is_modern_api_is_set_def push_body_posts_only)

lemma perform_posts_only:
  "is_modern_api self \<noteq> None \<Longrightarrow> posts_only self (perform net x self)"
  by (cases x) (simp_all add: pull_posts_only push_posts_only)

lemma perform_all_posts_only:
  "is_modern_api self \<noteq> None \<Longrightarrow> posts_only self (perform_all net xs self)"
proof (induction xs arbitrary: self)
  case Nil
  then show ?case by (simp add: posts_only_refl)
next
  case (Cons x xs)
  have a: "posts_only self (perform net x self)"
    using Cons.prems by (rule perform_posts_only)
  then have "is_modern_api (perform net x self) \<noteq> None"
    using Cons.prems by (simp add: posts_only_def)
  then have "posts_only (perform net x self) (perform_all net xs (perform net x self))"
    by (rule Cons.IH)
  with a show ?case using posts_only_trans by fastforce
qed

lemma ensure_known:
  "is_modern_api self \<noteq> None \<Longrightarrow> ensure_is_modern_api_is_set net func arg self = func arg self"
  by (auto simp add: ensure_is_modern_api_is_set_def)

lemma ensure_unknown:
  "is_modern_api self = None \<Longrightarrow>
   ensure_is_modern_api_is_set net func arg self =
     (case guess_and_set_is_modern_api net self of
        (Inl e, self1) \<Rightarrow> (Inl e, self1)
      | (Inr u, self1) \<Rightarrow> func arg self1)"
  by (simp add: ensure_is_modern_api_is_set_def)

lemma perform_unknown_raised:
  assumes "is_modern_api self = None" and "fst (guess_and_set_is_modern_api net self) = Inl e"
  shows "perform net x self = snd (guess_and_set_is_modern_api net self)"
proof -
  obtain self1 where g: "guess_and_set_is_modern_api net self = (Inl e, self1)"
    using assms(2) by (cases "guess_and_set_is_modern_api net self") simp
  show ?thesis
    by (cases x) (simp_all add: pull_def push_def ensure_unknown[OF assms(1)] g)
qed

lemma perform_unknown_resolved:
  assumes "is_modern_api self = None" and "fst (guess_and_set_is_modern_api net self) = Inr u"
  shows "perform net x self = perform net x (snd (guess_and_set_is_modern_api net self))"
proof -
  obtain self1 where g: "guess_and_set_is_modern_api net self = (Inr u, self1)"
    using assms(2) by (cases "guess_and_set_is_modern_api net self") simp
  have k: "is_modern_api self1 \<noteq> None"
    using guess_resolves[OF assms(2)] g by simp
  show ?thesis
    by (cases x) (simp_all add: pull_def push_def ensure_unknown[OF assms(1)] g ensure_known[OF k])
qed

lemma push_body_without_token:
  "s \<noteq> [] \<Longrightarrow> \<not> truthy_str (token self) \<Longrightarrow>
   push_body net (PStatus k (PStr s) (PStr c) e tj td) self = (Inr JNull, self)"
  by (simp add: push_body_valid push_whois_without_token push_status_without_token)

lemma token_setter_same: "token_setter v a = Inr b \<Longrightarrow> same_session a b"
  by (cases v) (auto simp add: token_setter_def same_session_def)

lemma token_setter_token: "token_setter v a = Inr b \<Longrightarrow> v = PStr s \<Longrightarrow> priv_token b = Some s"
  by (auto simp add: token_setter_def)

lemma url_base_setter_same: "url_base_setter v a = Inr b \<Longrightarrow> same_session a b"
  by (cases v) (auto simp add: url_base_setter_def same_session_def split: if_splits)

lemma url_base_setter_token: "url_base_setter v a = Inr b \<Longrightarrow> priv_token b = priv_token a"
  by (cases v) (auto simp add: url_base_setter_def split: if_splits)

lemma preferred_status_origin_setter_same:
  "preferred_status_origin_setter v a = Inr b \<Longrightarrow> same_session a b"
  by (cases v) (auto simp add: preferred_status_origin_setter_def same_session_def split: if_splits)

lemma preferred_status_origin_setter_token:
  "preferred_status_origin_setter v a = Inr b \<Longrightarrow> priv_token b = priv_token a"
  by (cases v) (auto simp add: preferred_status_origin_setter_def split: if_splits)

lemma timeout_setter_same: "timeout_setter v a = Inr b \<Longrightarrow> same_session a b"
  by (cases v) (auto simp add: timeout_setter_def same_session_def)

lemma timeout_setter_token: "timeout_setter v a = Inr b \<Longrightarrow> priv_token b = priv_token a"
  by (cases v) (auto simp add: timeout_setter_def)

lemma guess_url_base_same: "guess_and_set_url_base env a = Inr b \<Longrightarrow> same_session a b"
  by (auto simp add: guess_and_set_url_base_def dest: url_base_setter_same
      split: if_splits pyval.splits option.splits)

lemma guess_url_base_token:
  "guess_and_set_url_base env a = Inr b \<Longrightarrow> priv_token b = priv_token a"
  by (auto simp add: guess_and_set_url_base_def dest: url_base_setter_token
      split: if_splits pyval.splits option.splits)

lemma guess_origin_same:
  "guess_and_set_preferred_status_origin env a = Inr b \<Longrightarrow> same_session a b"
  by (auto simp add: guess_and_set_preferred_status_origin_def
      dest: preferred_status_origin_setter_same split: if_splits pyval.splits)

lemma guess_origin_token:
  "guess_and_set_preferred_status_origin env a = Inr b \<Longrightarrow> priv_token b = priv_token a"
  by (auto simp add: guess_and_set_preferred_status_origin_def
      dest: preferred_status_origin_setter_token split: if_splits pyval.splits)

lemma guess_timeout_same: "guess_and_set_timeout env a = Inr b \<Longrightarrow> same_session a b"
  by (auto simp add: guess_and_set_timeout_def dest: timeout_setter_same split: if_splits)

lemma guess_timeout_token:
  "guess_and_set_timeout env a = Inr b \<Longrightarrow> priv_token b = priv_token a"
  by (auto simp add: guess_and_set_timeout_def dest: timeout_setter_token split: if_splits)

lemma and_then_Inr:
  "and_then r f = Inr y \<Longrightarrow> \<exists>x. r = Inr x \<and> f x = Inr y"
  by (cases r) (simp_all add: and_then_def)

lemma init_steps:
  assumes "init env tk ub po tm = Inr self"
  obtains s1 s2 s3 s4 where
    "(if tk \<noteq> PNone then token_setter tk class_defaults
      else token_setter
             (PStr (case env_vars env ''PYFUNCEBLE_COLLECTION_API_TOKEN'' of
                      Some v \<Rightarrow> v | None \<Rightarrow> [])) class_defaults) = Inr s1"
    "(if ub \<noteq> PNone then url_base_setter ub s1 else guess_and_set_url_base env s1) = Inr s2"
    "(if po \<noteq> PNone then preferred_status_origin_setter po s2
      else guess_and_set_preferred_status_origin env s2) = Inr s3"
    "(if tm \<noteq> PNone then timeout_setter tm s3 else guess_and_set_timeout env s3) = Inr s4"
    "priv_is_modern_api self = priv_is_modern_api s4" "calls self = calls s4"
    "priv_token self = priv_token s4"
proof -
  from assms obtain s1 where 1: "(if tk \<noteq> PNone then token_setter tk class_defaults
      else token_setter
             (PStr (case env_vars env ''PYFUNCEBLE_COLLECTION_API_TOKEN'' of
                      Some v \<Rightarrow> v | None \<Rightarrow> [])) class_defaults) = Inr s1"
    and r1: "and_then
          (if ub \<noteq> PNone then url_base_setter ub s1
           else guess_and_set_url_base env s1)
          (\<lambda>self2. and_then
             (if po \<noteq> PNone
              then preferred_status_origin_setter po self2
              else guess_and_set_preferred_status_origin env self2)
             (\<lambda>self3. and_then
                (if tm \<noteq> PNone then timeout_setter tm self3
                 else guess_and_set_timeout env self3)
                (\<lambda>self4. Inr (self4\<lparr>session_headers :=
                    [(''Authorization'',
                        if truthy_str (token self4)
                        then Some (''Bearer '' @ fmt (token self4)) else None),
                     (''X-Pyfunceble-Version'', Some (PROJECT_VERSION env)),
                     (''Content-Type'', Some ''application/json'')]\<rparr>)))) = Inr self"
    unfolding init_def by (blast dest: and_then_Inr)
  from r1 obtain s2 where 2: "(if ub \<noteq> PNone then url_base_setter ub s1
           else guess_and_set_url_base env s1) = Inr s2"
    and r2: "and_then
             (if po \<noteq> PNone
              then preferred_status_origin_setter po s2
              else guess_and_set_preferred_status_origin env s2)
             (\<lambda>self3. and_then
                (if tm \<noteq> PNone then timeout_setter tm self3
                 else guess_and_set_timeout env self3)
                (\<lambda>self4. Inr (self4\<lparr>session_headers :=
                    [(''Authorization'',
                        if truthy_str (token self4)
                        then Some (''Bearer '' @ fmt (token self4)) else None),
                     (''X-Pyfunceble-Version'', Some (PROJECT_VERSION env)),
                     (''Content-Type'', Some ''application/json'')]\<rparr>))) = Inr self"
    by (blast dest: and_then_Inr)
  from r2 obtain s3 where 3: "(if po \<noteq> PNone
              then preferred_status_origin_setter po s2
              else guess_and_set_preferred_status_origin env s2) = Inr s3"
    and r3: "and_then
                (if tm \<noteq> PNone then timeout_setter tm s3
                 else guess_and_set_timeout env s3)
                (\<lambda>self4. Inr (self4\<lparr>session_headers :=
                    [(''Authorization'',
                        if truthy_str (token self4)
                        then Some (''Bearer '' @ fmt (token self4)) else None),
                     (''X-Pyfunceble-Version'', Some (PROJECT_VERSION env)),
                     (''Content-Type'', Some ''application/json'')]\<rparr>)) = Inr self"
    by (blast dest: and_then_Inr)
  from r3 obtain s4 where 4: "(if tm \<noteq> PNone then timeout_setter tm s3
                 else guess_and_set_timeout env s3) = Inr s4"
    and r4: "Inr (s4\<lparr>session_headers :=
                    [(''Authorization'',
                        if truthy_str (token s4)
                        then Some (''Bearer '' @ fmt (token s4)) else None),
                     (''X-Pyfunceble-Version'', Some (PROJECT_VERSION env)),
                     (''Content-Type'', Some ''application/json'')]\<rparr>) = (Inr self :: error + client)"
    by (blast dest: and_then_Inr)
  from r4 have "priv_is_modern_api self = priv_is_modern_api s4" "calls self = calls s4"
    "priv_token self = priv_token s4"
    by auto
  with 1 2 3 4 show ?thesis using that by blast
qed

lemma init_fresh:
  assumes "init env tk ub po tm = Inr self"
  shows "is_modern_api self = None \<and> calls self = []"
proof -
  from assms obtain s1 s2 s3 s4 where
    1: "(if tk \<noteq> PNone then token_setter tk class_defaults
      else token_setter
             (PStr (case env_vars env ''PYFUNCEBLE_COLLECTION_API_TOKEN'' of
                      Some v \<Rightarrow> v | None \<Rightarrow> [])) class_defaults) = Inr s1" and
    2: "(if ub \<noteq> PNone then url_base_setter ub s1 else guess_and_set_url_base env s1) = Inr s2" and
    3: "(if po \<noteq> PNone then preferred_status_origin_setter po s2
      else guess_and_set_preferred_status_origin env s2) = Inr s3" and
    4: "(if tm \<noteq> PNone then timeout_setter tm s3 else guess_and_set_timeout env s3) = Inr s4" and
    5: "priv_is_modern_api self = priv_is_modern_api s4" "calls self = calls s4"
    by (rule init_steps)
  have a: "same_session class_defaults s1"
    using 1 token_setter_same by (metis (full_types))
  have b: "same_session s1 s2"
    using 2 url_base_setter_same guess_url_base_same by (metis (full_types))
  have c: "same_session s2 s3"
    using 3 preferred_status_origin_setter_same guess_origin_same by (metis (full_types))
  have d: "same_session s3 s4"
    using 4 timeout_setter_same guess_timeout_same by (metis (full_types))
  show ?thesis
    using a b c d 5 by (simp add: same_session_def class_defaults_def is_modern_api_def)
qed

lemma init_token:
  assumes "init env tk ub po tm = Inr self"
  shows "token self =
           (case tk of
              PStr s \<Rightarrow> Some s
            | _ \<Rightarrow> Some (case env_vars env ''PYFUNCEBLE_COLLECTION_API_TOKEN'' of
                          Some v \<Rightarrow> v | None \<Rightarrow> []))"
proof -
  from assms obtain s1 s2 s3 s4 where
    1: "(if tk \<noteq> PNone then token_setter tk class_defaults
      else token_setter
             (PStr (case env_vars env ''PYFUNCEBLE_COLLECTION_API_TOKEN'' of
                      Some v \<Rightarrow> v | None \<Rightarrow> [])) class_defaults) = Inr s1" and
    2: "(if ub \<noteq> PNone then url_base_setter ub s1 else guess_and_set_url_base env s1) = Inr s2" and
    3: "(if po \<noteq> PNone then preferred_status_origin_setter po s2
      else guess_and_set_preferred_status_origin env s2) = Inr s3" and
    4: "(if tm \<noteq> PNone then timeout_setter tm s3 else guess_and_set_timeout env s3) = Inr s4" and
    5: "priv_token self = priv_token s4"
    by (rule init_steps)
  have a: "priv_token s1 = (case tk of
              PStr s \<Rightarrow> Some s
            | _ \<Rightarrow> Some (case env_vars env ''PYFUNCEBLE_COLLECTION_API_TOKEN'' of
                          Some v \<Rightarrow> v | None \<Rightarrow> []))"
    using 1 by (cases tk) (auto simp add: token_setter_def split: if_splits)
  have b: "priv_token s2 = priv_token s1"
    using 2 url_base_setter_token guess_url_base_token by (metis (full_types))
  have c: "priv_token s3 = priv_token s2"
    using 3 preferred_status_origin_setter_token guess_origin_token by (metis (full_types))
  have d: "priv_token s4 = priv_token s3"
    using 4 timeout_setter_token guess_timeout_token by (metis (full_types))
  show ?thesis
    using a b c d 5 by (simp add: token_def)
qed

subsection \<open>The claims\<close>



lemma pull_unknown:
  "is_modern_api self = None \<Longrightarrow>
   pull net v self =
     (case guess_and_set_is_modern_api net self of
        (Inl e, self1) \<Rightarrow> (Inl e, self1)
      | (Inr u, self1) \<Rightarrow> pull_body net v self1)"
  by (simp add: pull_def ensure_unknown)

lemma push_known: "is_modern_api self \<noteq> None \<Longrightarrow> push net v self = push_body net v self"
  by (simp add: push_def ensure_known)

lemma push_unknown:
  "is_modern_api self = None \<Longrightarrow>
   push net v self =
     (case guess_and_set_is_modern_api net self of
        (Inl e, self1) \<Rightarrow> (Inl e, self1)
      | (Inr u, self1) \<Rightarrow> push_body net v self1)"
  by (simp add: push_def ensure_unknown)

lemma pull_without_token:
  assumes "\<not> truthy_str (token self)" and "is_modern_api self = None"
  shows "pull net (PStr s) self =
     (soft_result
        (net (calls self)
           \<lparr>http_method = POST, url = fmt (url_base self) @ ''/v1/subject/search'',
            body = JsonBody (JObj [(''subject'', JStr s)]),
            req_timeout = timeout self\<rparr>),
      self\<lparr>priv_is_modern_api := Some False,
           calls := calls self @
             [\<lparr>http_method = POST, url = fmt (url_base self) @ ''/v1/subject/search'',
               body = JsonBody (JObj [(''subject'', JStr s)]),
               req_timeout = timeout self\<rparr>]\<rparr>)"
  using assms
  by (simp add: pull_unknown guess_without_token pull_body_str getters)

text \<open>
  Claim C1, as the code has it. A client constructed with no token (the argument is the empty
  string, or it is left out and the environment variable is unset or empty) starts with an
  unknown generation; \<^verbatim>\<open>guess_and_set_is_modern_api\<close> then resolves it without any
  network call, and it resolves it to the legacy generation (\<^verbatim>\<open>is_modern_api = False\<close>),
  not to the modern one. Consequently the first \<^verbatim>\<open>pull\<close> of a string makes exactly one
  call, a POST to \<^verbatim>\<open>{url_base}/v1/subject/search\<close> with the subject as JSON body and the
  configured timeout.
\<close>

theorem C1_no_token_resolves_to_legacy:
  assumes "init env tk ub po tm = Inr self"
    and "tk = PStr [] \<or>
         (tk = PNone \<and> env_vars env ''PYFUNCEBLE_COLLECTION_API_TOKEN'' \<in> {None, Some []})"
  shows "is_modern_api self = None \<and>
         guess_and_set_is_modern_api net self =
           (Inr (), self\<lparr>priv_is_modern_api := Some False\<rparr>) \<and>
         is_modern_api (snd (pull net (PStr s) self)) = Some False \<and>
         calls (snd (pull net (PStr s) self)) =
           [\<lparr>http_method = POST, url = fmt (url_base self) @ ''/v1/subject/search'',
             body = JsonBody (JObj [(''subject'', JStr s)]), req_timeout = timeout self\<rparr>]"
proof -
  have fresh: "is_modern_api self = None" "calls self = []"
    using init_fresh[OF assms(1)] by simp_all
  have "token self = Some []"
    using init_token[OF assms(1)] assms(2) by auto
  then have anon: "\<not> truthy_str (token self)" by simp
  show ?thesis
    using fresh guess_without_token[OF anon, of net] pull_without_token[OF anon fresh(1), of net s]
    by (simp add: getters)
qed

text \<open>C1 at the client of the round trip of the specification.\<close>

theorem C1_witness:
  "init example_env (PStr []) (PStr ''https://api.example.test'') (PStr ''latest'') (PFloat 2.5)
     = Inr anonymous_client \<and>
   is_modern_api (snd (pull net_ok (PStr ''test.tld'') anonymous_client)) = Some False \<and>
   calls (snd (pull net_ok (PStr ''test.tld'') anonymous_client)) =
     [\<lparr>http_method = POST, url = ''https://api.example.test/v1/subject/search'',
       body = JsonBody (JObj [(''subject'', JStr ''test.tld'')]), req_timeout = PFloat 2.5\<rparr>]"
proof -
  have i: "init example_env (PStr []) (PStr ''https://api.example.test'') (PStr ''latest'')
             (PFloat 2.5) = Inr anonymous_client"
    by (simp add: init_def and_then_def token_setter_def url_base_setter_def startswith_def
        rstrip_slash_def preferred_status_origin_setter_def SUPPORTED_STATUS_ORIGIN_def
        timeout_setter_def class_defaults_def anonymous_client_def example_env_def token_def)
  show ?thesis
    using C1_no_token_resolves_to_legacy[OF i, of net_ok "''test.tld''"] i
    by (simp add: anonymous_client_def getters)
qed

text \<open>
  Claim C1 as stated fails: for the client of the round trip (empty token), the generation
  after \<^verbatim>\<open>pull("test.tld")\<close> is not the modern one and the POST does not go to the hub
  aggregation path.
\<close>

theorem C1_counterexample:
  "init example_env (PStr []) (PStr ''https://api.example.test'') (PStr ''latest'') (PFloat 2.5)
     = Inr anonymous_client \<and>
   is_modern_api (snd (pull net_ok (PStr ''test.tld'') anonymous_client)) \<noteq> Some True \<and>
   map url (calls (snd (pull net_ok (PStr ''test.tld'') anonymous_client))) \<noteq>
     [''https://api.example.test/v1/hub/aggregation/subject/search'']"
  by (simp add: init_def and_then_def token_setter_def url_base_setter_def startswith_def
        rstrip_slash_def preferred_status_origin_setter_def SUPPORTED_STATUS_ORIGIN_def
        timeout_setter_def class_defaults_def anonymous_client_def example_env_def
        pull_def ensure_is_modern_api_is_set_def guess_and_set_is_modern_api_def
        pull_body_def session_post_def session_send_def net_ok_def getters)

text \<open>
  Claim C2, as the code has it. With a token configured, the probe makes exactly one call, a
  GET to \<^verbatim>\<open>{url_base}/v1/stats/subject\<close> with the configured timeout. When a response
  comes back, the generation becomes legacy (\<^verbatim>\<open>is_modern_api = False\<close>) if its status
  is outside 400..599 (whatever the body, which is never parsed, and also for a 1xx or 3xx
  status), and modern if the status is in 400..599. When the session raises
  \<^verbatim>\<open>RequestException\<close> or \<^verbatim>\<open>JSONDecodeError\<close> the generation becomes modern. An
  exception of any other class leaves the probe and the generation is left as it was.
\<close>

theorem C2_probe_with_token:
  assumes "truthy_str (token self)"
  shows "calls (snd (guess_and_set_is_modern_api net self)) =
           calls self @
             [\<lparr>http_method = GET, url = fmt (url_base self) @ ''/v1/stats/subject'',
               body = NoBody, req_timeout = timeout self\<rparr>] \<and>
         (case net (calls self)
                 \<lparr>http_method = GET, url = fmt (url_base self) @ ''/v1/stats/subject'',
                  body = NoBody, req_timeout = timeout self\<rparr> of
            Return r \<Rightarrow>
              fst (guess_and_set_is_modern_api net self) = Inr () \<and>
              is_modern_api (snd (guess_and_set_is_modern_api net self)) =
                Some (400 \<le> status_code r \<and> status_code r < 600)
          | Raise RequestException \<Rightarrow>
              fst (guess_and_set_is_modern_api net self) = Inr () \<and>
              is_modern_api (snd (guess_and_set_is_modern_api net self)) = Some True
          | Raise JSONDecodeError \<Rightarrow>
              fst (guess_and_set_is_modern_api net self) = Inr () \<and>
              is_modern_api (snd (guess_and_set_is_modern_api net self)) = Some True
          | Raise (Other e) \<Rightarrow>
              fst (guess_and_set_is_modern_api net self) = Inl e \<and>
              is_modern_api (snd (guess_and_set_is_modern_api net self)) = is_modern_api self)"
  by (simp add: guess_with_token[OF assms] getters split: outcome.splits exn.splits)

text \<open>
  C2 at a client with a token, against a remote side that answers, one that is down, and,
  with the timeout \<^verbatim>\<open>True\<close>, one that validates the timeout.
\<close>

theorem C2_witness:
  "truthy_str (token token_client) \<and>
   calls (snd (guess_and_set_is_modern_api net_ok token_client)) =
     [\<lparr>http_method = GET, url = ''https://api.example.test/v1/stats/subject'',
       body = NoBody, req_timeout = PFloat 2.5\<rparr>] \<and>
   is_modern_api (snd (guess_and_set_is_modern_api net_ok token_client)) = Some False \<and>
   is_modern_api (snd (guess_and_set_is_modern_api net_down token_client)) = Some True \<and>
   truthy_str (token bool_timeout_client) \<and>
   fst (guess_and_set_is_modern_api net_strict bool_timeout_client) = Inl ValueError \<and>
   is_modern_api (snd (guess_and_set_is_modern_api net_strict bool_timeout_client)) = None"
proof -
  have t: "truthy_str (token token_client)"
    by (simp add: token_client_def anonymous_client_def token_def)
  have b: "truthy_str (token bool_timeout_client)"
    by (simp add: bool_timeout_client_def token_client_def anonymous_client_def token_def)
  show ?thesis
    using t b C2_probe_with_token[OF t, of net_ok] C2_probe_with_token[OF t, of net_down]
      C2_probe_with_token[OF b, of net_strict]
    by (simp add: bool_timeout_client_def token_client_def anonymous_client_def net_ok_def
        net_down_def net_strict_def timeout_rejected_def getters)
qed

text \<open>
  Claim C2 as stated fails: a response with the status 304, which is not a success status,
  and a response with the status 200 whose body does not parse, both leave the generation
  legacy, not modern.
\<close>

theorem C2_counterexample:
  "truthy_str (token token_client) \<and>
   net_not_modified [] \<lparr>http_method = GET, url = ''https://api.example.test/v1/stats/subject'',
                         body = NoBody, req_timeout = PFloat 2.5\<rparr> =
     Return \<lparr>status_code = 304, json_body = Some (JObj [])\<rparr> \<and>
   is_modern_api (snd (guess_and_set_is_modern_api net_not_modified token_client)) \<noteq> Some True \<and>
   net_html [] \<lparr>http_method = GET, url = ''https://api.example.test/v1/stats/subject'',
                 body = NoBody, req_timeout = PFloat 2.5\<rparr> =
     Return \<lparr>status_code = 200, json_body = None\<rparr> \<and>
   is_modern_api (snd (guess_and_set_is_modern_api net_html token_client)) \<noteq> Some True"
  by (simp add: guess_and_set_is_modern_api_def session_get_eq raise_for_status_def
      net_not_modified_def net_html_def token_client_def anonymous_client_def getters)




text \<open>
  Claim C4. For every valid checker status (a string subject that is not empty, a string
  checker type, supported or not), \<^verbatim>\<open>push\<close> on a client without a token returns
  \<^verbatim>\<open>None\<close> and makes no call; no error is raised for an unsupported checker type.
\<close>

theorem C4_push_without_token:
  assumes "s \<noteq> []" and "\<not> truthy_str (token self)"
  shows "fst (push net (PStatus k (PStr s) (PStr c) e tj td) self) = Inr JNull \<and>
         calls (snd (push net (PStatus k (PStr s) (PStr c) e tj td) self)) = calls self"
proof (cases "is_modern_api self = None")
  case True
  let ?self1 = "self\<lparr>priv_is_modern_api := Some False\<rparr>"
  have t: "\<not> truthy_str (token ?self1)"
    using assms(2) by (simp add: getters)
  show ?thesis
    using push_body_without_token[OF assms(1) t]
    by (simp add: push_unknown[OF True] guess_without_token[OF assms(2)])
next
  case False
  then show ?thesis
    using push_body_without_token[OF assms] by (simp add: push_known)
qed

text \<open>C4 at a status whose checker type is not supported.\<close>

theorem C4_witness:
  "fst (push net_ok unsupported_status anonymous_client) = Inr JNull \<and>
   calls (snd (push net_ok unsupported_status anonymous_client)) = []"
proof -
  have a: "''example.org'' \<noteq> []" by simp
  have b: "\<not> truthy_str (token anonymous_client)"
    by (simp add: anonymous_client_def token_def)
  show ?thesis
    using C4_push_without_token[OF a b, of net_ok Availability "''whatever''"
        "Some (PStr ''01-jan-2030'')" "''{}''" "[(''subject'', JStr ''example.org'')]"]
    by (simp add: unsupported_status_def anonymous_client_def)
qed




lemma rstrip_slash_decompose:
  "\<exists>n. s = rstrip_slash s @ replicate n CHR ''/''"
proof -
  let ?p = "\<lambda>c. c = CHR ''/''"
  have "rev (dropWhile ?p (rev s)) @ rev (takeWhile ?p (rev s)) =
          rev (takeWhile ?p (rev s) @ dropWhile ?p (rev s))"
    by (simp only: rev_append)
  also have "\<dots> = s"
    by (simp only: takeWhile_dropWhile_id rev_rev_ident)
  finally have s: "s = rstrip_slash s @ rev (takeWhile ?p (rev s))"
    by (simp add: rstrip_slash_def)
  have "\<forall>y \<in> set (rev (takeWhile ?p (rev s))). y = CHR ''/''"
    by (auto dest: set_takeWhileD)
  then have "replicate (length (rev (takeWhile ?p (rev s)))) CHR ''/'' = rev (takeWhile ?p (rev s))"
    by (rule replicate_length_same)
  with s show ?thesis by metis
qed

lemma rstrip_slash_no_trailing: "\<not> suffix ''/'' (rstrip_slash s)"
proof
  let ?p = "\<lambda>c. c = CHR ''/''"
  assume "suffix ''/'' (rstrip_slash s)"
  then obtain ys where "rstrip_slash s = ys @ ''/''" by (auto simp add: suffix_def)
  then have "dropWhile ?p (rev s) = CHR ''/'' # rev ys"
    by (simp add: rstrip_slash_def rev_swap)
  then have "dropWhile ?p (rev s) \<noteq> [] \<and> hd (dropWhile ?p (rev s)) = CHR ''/''" by simp
  then show False using hd_dropWhile[of ?p "rev s"] by simp
qed

lemma rstrip_slash_idem: "rstrip_slash (rstrip_slash s) = rstrip_slash s"
  by (simp add: rstrip_slash_def)

lemma startswith_http: "startswith s [''http'', ''https''] \<longleftrightarrow> prefix ''http'' s"
proof -
  have "prefix ''https'' s \<Longrightarrow> prefix ''http'' s"
    by (auto simp add: prefix_def)
  then show ?thesis by (auto simp add: startswith_def)
qed

text \<open>
  Claim C6. Setting \<^verbatim>\<open>url_base\<close> to a value that is not a string raises a type error; to
  a string that starts neither with \<^verbatim>\<open>http\<close> nor with \<^verbatim>\<open>https\<close>, a value error. An
  accepted string is stored without its trailing slashes and otherwise unchanged: the given
  string is the stored one followed by slashes only, the stored one does not end with a
  slash, and stripping it again changes nothing.
\<close>

theorem C6_url_base_setter:
  "((\<forall>s. v \<noteq> PStr s) \<longrightarrow> url_base_setter v self = Inl TypeError) \<and>
   (\<not> prefix ''http'' s \<and> \<not> prefix ''https'' s \<longrightarrow>
      url_base_setter (PStr s) self = Inl ValueError) \<and>
   (prefix ''http'' s \<or> prefix ''https'' s \<longrightarrow>
      url_base_setter (PStr s) self = Inr (self\<lparr>priv_url_base := Some (rstrip_slash s)\<rparr>) \<and>
      url_base (self\<lparr>priv_url_base := Some (rstrip_slash s)\<rparr>) = Some (rstrip_slash s) \<and>
      (\<exists>n. s = rstrip_slash s @ replicate n CHR ''/'') \<and>
      \<not> suffix ''/'' (rstrip_slash s) \<and>
      rstrip_slash (rstrip_slash s) = rstrip_slash s)"
proof (intro conjI impI)
  assume "\<forall>s. v \<noteq> PStr s"
  then show "url_base_setter v self = Inl TypeError"
    by (cases v) (simp_all add: url_base_setter_def)
next
  assume "\<not> prefix ''http'' s \<and> \<not> prefix ''https'' s"
  then show "url_base_setter (PStr s) self = Inl ValueError"
    by (simp add: url_base_setter_def startswith_def)
next
  assume "prefix ''http'' s \<or> prefix ''https'' s"
  then show "url_base_setter (PStr s) self = Inr (self\<lparr>priv_url_base := Some (rstrip_slash s)\<rparr>)"
    by (auto simp add: url_base_setter_def startswith_def)
qed (simp_all add: url_base_def rstrip_slash_decompose rstrip_slash_no_trailing rstrip_slash_idem)

text \<open>C6 at an integer, at a string with another scheme and at an accepted string.\<close>

theorem C6_witness:
  "url_base_setter (PInt 3) anonymous_client = Inl TypeError \<and>
   url_base_setter (PStr ''ftp://example.test'') anonymous_client = Inl ValueError \<and>
   url_base_setter (PStr ''https://api.example.test//'') anonymous_client =
     Inr (anonymous_client\<lparr>priv_url_base := Some ''https://api.example.test''\<rparr>)"
  using C6_url_base_setter[of "PInt 3" anonymous_client "''ftp://example.test''"]
    C6_url_base_setter[of "PInt 3" anonymous_client "''https://api.example.test//''"]
  by (simp add: rstrip_slash_def)

text \<open>
  Claim C7. A constructed client starts with an unknown generation. Over any sequence of
  \<^verbatim>\<open>pull\<close> and \<^verbatim>\<open>push\<close> calls, once the generation is set it stays what it is and
  no probe is made. While it is unknown, a call runs the probe first: if the probe raises,
  the call raises the same and the generation stays unknown; otherwise the probe has set
  the generation, the call proceeds as on the probed instance, that generation is the one
  after this call and after all later calls, and one probe at most has been made.
\<close>

theorem C7_generation_resolved_once:
  "(init env tk ub po tm = Inr self0 \<longrightarrow> is_modern_api self0 = None) \<and>
   (is_modern_api self = Some g \<longrightarrow>
      is_modern_api (perform_all net xs self) = Some g \<and>
      probes (perform_all net xs self) = probes self) \<and>
   (is_modern_api self = None \<longrightarrow>
      (case fst (guess_and_set_is_modern_api net self) of
         Inl e \<Rightarrow>
           fst (pull net v self) = Inl e \<and> fst (push net v self) = Inl e \<and>
           perform net x self = snd (guess_and_set_is_modern_api net self) \<and>
           is_modern_api (perform net x self) = None
       | Inr u \<Rightarrow>
           is_modern_api (snd (guess_and_set_is_modern_api net self)) \<noteq> None \<and>
           perform net x self = perform net x (snd (guess_and_set_is_modern_api net self)) \<and>
           is_modern_api (perform net x self) =
             is_modern_api (snd (guess_and_set_is_modern_api net self)) \<and>
           is_modern_api (perform_all net (x # xs) self) =
             is_modern_api (snd (guess_and_set_is_modern_api net self)) \<and>
           probes (perform_all net (x # xs) self) \<le> probes self + 1))"
proof (intro conjI impI)
  assume "init env tk ub po tm = Inr self0"
  then show "is_modern_api self0 = None" using init_fresh by blast
next
  assume g: "is_modern_api self = Some g"
  then have "posts_only self (perform_all net xs self)"
    by (simp add: perform_all_posts_only)
  then show "is_modern_api (perform_all net xs self) = Some g"
    and "probes (perform_all net xs self) = probes self"
    using g by (simp_all add: posts_only_def)
next
  assume u: "is_modern_api self = None"
  let ?g = "snd (guess_and_set_is_modern_api net self)"
  show "case fst (guess_and_set_is_modern_api net self) of
         Inl e \<Rightarrow>
           fst (pull net v self) = Inl e \<and> fst (push net v self) = Inl e \<and>
           perform net x self = ?g \<and> is_modern_api (perform net x self) = None
       | Inr u \<Rightarrow>
           is_modern_api ?g \<noteq> None \<and>
           perform net x self = perform net x ?g \<and>
           is_modern_api (perform net x self) = is_modern_api ?g \<and>
           is_modern_api (perform_all net (x # xs) self) = is_modern_api ?g \<and>
           probes (perform_all net (x # xs) self) \<le> probes self + 1"
  proof (cases "fst (guess_and_set_is_modern_api net self)")
    case (Inl e)
    then obtain self1 where g: "guess_and_set_is_modern_api net self = (Inl e, self1)"
      by (cases "guess_and_set_is_modern_api net self") simp
    have a: "fst (pull net v self) = Inl e" "fst (push net v self) = Inl e"
      by (simp_all add: pull_unknown[OF u] push_unknown[OF u] g)
    have b: "perform net x self = ?g" using u Inl by (rule perform_unknown_raised)
    have c: "is_modern_api ?g = None" using guess_raises[OF Inl] u by simp
    show ?thesis using Inl a b c by simp
  next
    case (Inr w)
    have r: "is_modern_api ?g \<noteq> None" using Inr by (rule guess_resolves)
    have e: "perform net x self = perform net x ?g" using u Inr by (rule perform_unknown_resolved)
    have p: "posts_only ?g (perform net x ?g)" using r by (rule perform_posts_only)
    then have s: "is_modern_api (perform net x self) = is_modern_api ?g"
      using e by (simp add: posts_only_def)
    then have "is_modern_api (perform net x self) \<noteq> None" using r by simp
    then have q: "posts_only (perform net x self) (perform_all net xs (perform net x self))"
      by (rule perform_all_posts_only)
    then have t: "is_modern_api (perform_all net (x # xs) self) = is_modern_api ?g"
      using s by (simp add: posts_only_def)
    have "probes (perform_all net (x # xs) self) = probes ?g"
      using p q e by (simp add: posts_only_def)
    then have n: "probes (perform_all net (x # xs) self) \<le> probes self + 1"
      using guess_probes[of net self] by simp
    show ?thesis using Inr r e s t n by simp
  qed
qed

text \<open>
  C7 at the constructed client, at a client set to modern, at a fresh client with a token,
  and at one whose probe raises.
\<close>

theorem C7_witness:
  "is_modern_api anonymous_client = None \<and>
   is_modern_api (perform_all net_ok [Pull (PStr ''test.tld''), Push example_status]
                    (token_client\<lparr>priv_is_modern_api := Some True\<rparr>)) = Some True \<and>
   probes (perform_all net_ok [Pull (PStr ''test.tld''), Push example_status]
             (token_client\<lparr>priv_is_modern_api := Some True\<rparr>)) = 0 \<and>
   is_modern_api (perform_all net_ok [Pull (PStr ''test.tld''), Push example_status,
                    Pull (PStr ''example.org'')] token_client) = Some False \<and>
   probes (perform_all net_ok [Pull (PStr ''test.tld''), Push example_status,
             Pull (PStr ''example.org'')] token_client) \<le> 1 \<and>
   fst (pull net_strict (PStr ''test.tld'') bool_timeout_client) = Inl ValueError \<and>
   is_modern_api (perform net_strict (Pull (PStr ''test.tld'')) bool_timeout_client) = None"
proof -
  have i: "init example_env (PStr []) (PStr ''https://api.example.test'') (PStr ''latest'')
             (PFloat 2.5) = Inr anonymous_client"
    by (simp add: init_def and_then_def token_setter_def url_base_setter_def startswith_def
        rstrip_slash_def preferred_status_origin_setter_def SUPPORTED_STATUS_ORIGIN_def
        timeout_setter_def class_defaults_def anonymous_client_def example_env_def token_def)
  have a: "is_modern_api (token_client\<lparr>priv_is_modern_api := Some True\<rparr>) = Some True"
    by (simp add: is_modern_api_def)
  have b: "is_modern_api token_client = None" "is_modern_api bool_timeout_client = None"
    by (simp_all add: is_modern_api_def bool_timeout_client_def token_client_def
        anonymous_client_def)
  have p: "probes (token_client\<lparr>priv_is_modern_api := Some True\<rparr>) = 0" "probes token_client = 0"
    by (simp_all add: probes_def token_client_def anonymous_client_def)
  have t: "truthy_str (token token_client)" "truthy_str (token bool_timeout_client)"
    by (simp_all add: bool_timeout_client_def token_client_def anonymous_client_def token_def)
  have g: "fst (guess_and_set_is_modern_api net_ok token_client) = Inr ()"
    "is_modern_api (snd (guess_and_set_is_modern_api net_ok token_client)) = Some False"
    by (simp_all add: guess_with_token[OF t(1)] net_ok_def is_modern_api_def)
  have h: "fst (guess_and_set_is_modern_api net_strict bool_timeout_client) = Inl ValueError"
    unfolding guess_with_token[OF t(2)]
    by (simp add: net_strict_def timeout_rejected_def
        bool_timeout_client_def token_client_def anonymous_client_def getters)
  have w1: "is_modern_api (perform_all net_ok [Pull (PStr ''test.tld''), Push example_status]
                    (token_client\<lparr>priv_is_modern_api := Some True\<rparr>)) = Some True \<and>
   probes (perform_all net_ok [Pull (PStr ''test.tld''), Push example_status]
             (token_client\<lparr>priv_is_modern_api := Some True\<rparr>)) = 0"
    using C7_generation_resolved_once[where self = "token_client\<lparr>priv_is_modern_api := Some True\<rparr>"
        and g = True and net = net_ok and xs = "[Pull (PStr ''test.tld''), Push example_status]"] a p
    by (simp del: perform_all.simps perform.simps)
  have w2: "is_modern_api anonymous_client = None \<and>
   is_modern_api (perform_all net_ok [Pull (PStr ''test.tld''), Push example_status,
                    Pull (PStr ''example.org'')] token_client) = Some False \<and>
   probes (perform_all net_ok [Pull (PStr ''test.tld''), Push example_status,
             Pull (PStr ''example.org'')] token_client) \<le> 1"
    using C7_generation_resolved_once[where env = example_env and tk = "PStr []"
        and ub = "PStr ''https://api.example.test''" and po = "PStr ''latest''"
        and tm = "PFloat 2.5" and ?self0.0 = anonymous_client and self = token_client
        and net = net_ok and xs = "[Push example_status, Pull (PStr ''example.org'')]"
        and x = "Pull (PStr ''test.tld'')"]
      i b p g
    by (simp del: perform_all.simps perform.simps)
  have w3: "fst (pull net_strict (PStr ''test.tld'') bool_timeout_client) = Inl ValueError \<and>
   is_modern_api (perform net_strict (Pull (PStr ''test.tld'')) bool_timeout_client) = None"
    using C7_generation_resolved_once[where self = bool_timeout_client and net = net_strict
        and v = "PStr ''test.tld''" and x = "Pull (PStr ''test.tld'')"] b h guess_raises[OF h]
    by (simp del: perform_all.simps perform.simps)
  show ?thesis using w1 w2 w3 by blast
qed

lemma push_body_type_error:
  assumes "\<forall>k s c e tj td. w \<noteq> PStatus k (PStr s) (PStr c) e tj td"
  shows "push_body net w x = (Inl TypeError, x)"
proof (cases w)
  case (PStatus k subj ctype e tj td)
  show ?thesis
  proof (cases "\<exists>s. subj = PStr s")
    case False
    then show ?thesis using push_body_subject_not_str PStatus by blast
  next
    case True
    then obtain s where s: "subj = PStr s" by blast
    then have "\<forall>c. ctype \<noteq> PStr c" using assms PStatus by blast
    then show ?thesis using push_body_type_not_str PStatus s by blast
  qed
qed (simp_all add: push_body_def)

text \<open>
  Claim C8. On a client whose generation is unknown, \<^verbatim>\<open>pull\<close> of a value that is not a
  string, and \<^verbatim>\<open>push\<close> of a value that is not a checker status with a string subject and a
  string checker type, run the probe before they look at the argument: they leave behind
  the instance the probe produced, with the probe call in the log when a token is
  configured, and they raise the type error when the probe returned, which has then set
  the generation (when the probe itself raised, they raise what it raised).
\<close>

theorem C8_probe_before_validation:
  assumes "is_modern_api self = None"
  shows "((\<forall>s. v \<noteq> PStr s) \<longrightarrow>
            pull net v self =
              (case fst (guess_and_set_is_modern_api net self) of
                 Inl e \<Rightarrow> Inl e | Inr u \<Rightarrow> Inl TypeError,
               snd (guess_and_set_is_modern_api net self))) \<and>
         ((\<forall>k s c e tj td. w \<noteq> PStatus k (PStr s) (PStr c) e tj td) \<longrightarrow>
            push net w self =
              (case fst (guess_and_set_is_modern_api net self) of
                 Inl e \<Rightarrow> Inl e | Inr u \<Rightarrow> Inl TypeError,
               snd (guess_and_set_is_modern_api net self))) \<and>
         (fst (guess_and_set_is_modern_api net self) = Inr () \<longrightarrow>
            is_modern_api (snd (guess_and_set_is_modern_api net self)) \<noteq> None) \<and>
         (truthy_str (token self) \<longrightarrow>
            calls (snd (guess_and_set_is_modern_api net self)) =
              calls self @
                [\<lparr>http_method = GET, url = fmt (url_base self) @ ''/v1/stats/subject'',
                  body = NoBody, req_timeout = timeout self\<rparr>])"
proof (intro conjI impI)
  assume "\<forall>s. v \<noteq> PStr s"
  then have "\<And>x. pull_body net v x = (Inl TypeError, x)"
    by (rule pull_body_not_str)
  then show "pull net v self =
              (case fst (guess_and_set_is_modern_api net self) of
                 Inl e \<Rightarrow> Inl e | Inr u \<Rightarrow> Inl TypeError,
               snd (guess_and_set_is_modern_api net self))"
    by (simp add: pull_unknown[OF assms] split: prod.splits sum.splits)
next
  assume "\<forall>k s c e tj td. w \<noteq> PStatus k (PStr s) (PStr c) e tj td"
  then have "\<And>x. push_body net w x = (Inl TypeError, x)"
    by (rule push_body_type_error)
  then show "push net w self =
              (case fst (guess_and_set_is_modern_api net self) of
                 Inl e \<Rightarrow> Inl e | Inr u \<Rightarrow> Inl TypeError,
               snd (guess_and_set_is_modern_api net self))"
    by (simp add: push_unknown[OF assms] split: prod.splits sum.splits)
next
  assume "fst (guess_and_set_is_modern_api net self) = Inr ()"
  then show "is_modern_api (snd (guess_and_set_is_modern_api net self)) \<noteq> None"
    by (rule guess_resolves)
next
  assume "truthy_str (token self)"
  then show "calls (snd (guess_and_set_is_modern_api net self)) =
              calls self @
                [\<lparr>http_method = GET, url = fmt (url_base self) @ ''/v1/stats/subject'',
                  body = NoBody, req_timeout = timeout self\<rparr>]"
    by (simp add: guess_calls)
qed

text \<open>C8 at a client with a token: the type error comes after the probe.\<close>

theorem C8_witness:
  "fst (pull net_ok (PInt 7) token_client) = Inl TypeError \<and>
   fst (push net_ok (PStr ''example.org'') token_client) = Inl TypeError \<and>
   is_modern_api token_client = None \<and>
   is_modern_api (snd (pull net_ok (PInt 7) token_client)) = Some False \<and>
   calls (snd (pull net_ok (PInt 7) token_client)) =
     [\<lparr>http_method = GET, url = ''https://api.example.test/v1/stats/subject'',
       body = NoBody, req_timeout = PFloat 2.5\<rparr>]"
proof -
  have b: "is_modern_api token_client = None"
    by (simp add: is_modern_api_def token_client_def anonymous_client_def)
  have t: "truthy_str (token token_client)"
    by (simp add: token_client_def anonymous_client_def token_def)
  have g: "fst (guess_and_set_is_modern_api net_ok token_client) = Inr ()"
    "is_modern_api (snd (guess_and_set_is_modern_api net_ok token_client)) = Some False"
    by (simp_all add: guess_with_token[OF t] net_ok_def is_modern_api_def)
  show ?thesis
    using C8_probe_before_validation[OF b, where v = "PInt 7" and net = net_ok
        and w = "PStr ''example.org''"] b t g
    by (simp add: token_client_def anonymous_client_def getters)
qed

text \<open>
  Claim C9. For every value, \<^verbatim>\<open>value in client\<close> gives what \<^verbatim>\<open>pull(value)\<close> gives:
  it is true exactly when \<^verbatim>\<open>pull\<close> returns something other than \<^verbatim>\<open>None\<close>, false when
  it returns \<^verbatim>\<open>None\<close>, it raises what \<^verbatim>\<open>pull\<close> raises, and it has the effects of that
  \<^verbatim>\<open>pull\<close>; \<^verbatim>\<open>client[value]\<close> is \<^verbatim>\<open>pull(value)\<close>.
\<close>

theorem C9_contains_getitem_delegate:
  "fst (contains net v self) =
     (case fst (pull net v self) of Inl e \<Rightarrow> Inl e | Inr r \<Rightarrow> Inr (r \<noteq> JNull)) \<and>
   (fst (contains net v self) = Inr True) =
     (\<exists>r. fst (pull net v self) = Inr r \<and> r \<noteq> JNull) \<and>
   snd (contains net v self) = snd (pull net v self) \<and>
   getitem net v self = pull net v self"
  by (cases "pull net v self"; cases "fst (pull net v self)")
     (auto simp add: contains_def getitem_def)

text \<open>C9 against a remote side that answers and one that is down.\<close>

theorem C9_witness:
  "fst (contains net_ok (PStr ''test.tld'') anonymous_client) = Inr True \<and>
   fst (contains net_down (PStr ''test.tld'') anonymous_client) = Inr False \<and>
   getitem net_ok (PStr ''test.tld'') anonymous_client =
     pull net_ok (PStr ''test.tld'') anonymous_client"
proof -
  have u: "is_modern_api anonymous_client = None" "\<not> truthy_str (token anonymous_client)"
    by (simp_all add: anonymous_client_def getters)
  have a: "fst (pull net_ok (PStr ''test.tld'') anonymous_client) = Inr (JObj [(''id'', JNum 1)])"
    by (simp add: pull_without_token[OF u(2) u(1)] soft_result_def net_ok_def)
  have b: "fst (pull net_down (PStr ''test.tld'') anonymous_client) = Inr JNull"
    by (simp add: pull_without_token[OF u(2) u(1)] soft_result_def net_down_def)
  show ?thesis
    using C9_contains_getitem_delegate[of net_ok "PStr ''test.tld''" anonymous_client]
      C9_contains_getitem_delegate[of net_down "PStr ''test.tld''" anonymous_client]
      a b
    by simp
qed

text \<open>
  Claim C10. The check of the setter of \<^verbatim>\<open>url_base\<close> is the test for the prefix
  \<^verbatim>\<open>http\<close> alone (the alternative \<^verbatim>\<open>https\<close> adds nothing), so every string that
  begins with these four characters is accepted, whatever follows.
\<close>

theorem C10_http_prefix_only:
  "startswith s [''http'', ''https''] = prefix ''http'' s \<and>
   (prefix ''http'' s \<longrightarrow>
      url_base_setter (PStr s) self = Inr (self\<lparr>priv_url_base := Some (rstrip_slash s)\<rparr>))"
  by (simp add: startswith_http url_base_setter_def)

text \<open>C10 at \<^verbatim>\<open>httpfoo.example\<close>, which has no scheme separator.\<close>

theorem C10_witness:
  "prefix ''http'' ''httpfoo.example'' \<and>
   url_base_setter (PStr ''httpfoo.example'') anonymous_client =
     Inr (anonymous_client\<lparr>priv_url_base := Some ''httpfoo.example''\<rparr>)"
  using C10_http_prefix_only[of "''httpfoo.example''" anonymous_client]
  by (simp add: rstrip_slash_def)

end
